theory Spec2Isabelle
  imports Complex_Main "HOL-Library.Sublist" "HOL-Library.Char_ord" "HOL-Library.List_Lexorder"
begin

section \<open>Crypto Portfolio Dashboard: a model of \<^verbatim>\<open>dashboard.py\<close>\<close>

text \<open>
  The script is a linear pipeline: \<^verbatim>\<open>load_portfolio\<close> reads the holdings,
  \<^verbatim>\<open>fetch_prices\<close> asks the price service, the loop of \<^verbatim>\<open>main\<close> computes
  the metrics of every holding and the totals, \<^verbatim>\<open>print_table\<close> renders the rows.

  Conventions of the model:
  \<^item> a Python value that comes out of \<^verbatim>\<open>json.load\<close> is a \<open>pyval\<close>; a dict is an
    association list in insertion order, looked up with \<open>map_of\<close>;
  \<^item> a Python \<^verbatim>\<open>float\<close> is a \<open>real\<close>: rounding, infinities and NaN are not part of
    the model, the data flow and the control flow are; the one float operation of the
    script that raises on a number, \<^verbatim>\<open>float\<close> on an integer beyond the range of a
    double, raises in the model too;
  \<^item> every exception is a value of \<open>py_error\<close>, and a function that can raise returns
    \<open>py_error + 'a\<close> with \<open>Inl\<close> for the exception;
  \<^item> what the script takes from the standard library and the outside world (the file
    system, the JSON parser, the HTTP request, \<^verbatim>\<open>str.upper\<close>, the parsing and the
    formatting of floats) is a field of the record \<open>py_env\<close>, so every theorem holds
    for every behaviour of these.
\<close>

subsection \<open>Python values and exceptions\<close>

datatype py_error =
  FileNotFoundError | JSONDecodeError | KeyError | TypeError | AttributeError
  | ValueError | IndexError | ZeroDivisionError | OverflowError | URLError
  | TimeoutError | UnicodeDecodeError | OSError | RecursionError

datatype pyval =
  PNone | PBool bool | PInt int | PFloat real | PStr string
  | PList "pyval list" | PDict "(string \<times> pyval) list"

record py_env =
  read_file :: "string \<Rightarrow> py_error + string"
  json_parse :: "string \<Rightarrow> py_error + pyval"
  str_upper :: "string \<Rightarrow> string"
  float_of_str :: "string \<Rightarrow> real option"
  urlopen_read :: "string \<Rightarrow> py_error + string"
  format_g :: "real \<Rightarrow> string"
  format_comma_2f :: "real \<Rightarrow> string"
  format_2f :: "real \<Rightarrow> string"

text \<open>
  \<open>read_file\<close> is \<^verbatim>\<open>open(path, "r", encoding="utf-8")\<close> followed by reading the text;
  \<open>json_parse\<close> is the JSON decoder, which raises \<^verbatim>\<open>JSONDecodeError\<close> on a text that
  is not JSON and can raise others (\<^verbatim>\<open>RecursionError\<close> on deep nesting, a plain
  \<^verbatim>\<open>ValueError\<close> on an integer literal of too many digits);
  \<open>float_of_str\<close> is \<^verbatim>\<open>float\<close> on a string, \<open>None\<close> standing for
  \<^verbatim>\<open>ValueError\<close>; \<open>urlopen_read\<close> is \<^verbatim>\<open>urlopen(url, timeout=10)\<close>, reading the
  body and decoding it; the three formatters are the format specifications \<^verbatim>\<open>g\<close>,
  \<^verbatim>\<open>,.2f\<close> and \<^verbatim>\<open>.2f\<close>.
\<close>

text \<open>
  \<^verbatim>\<open>float(i)\<close> on an integer raises \<^verbatim>\<open>OverflowError\<close> when \<open>i\<close> rounds to a value
  beyond the largest double, \<open>2 ^ 1024 - 2 ^ 971\<close>: that is from \<open>2 ^ 1024 - 2 ^ 970\<close>
  on, in absolute value.
\<close>

definition float_overflows :: "int \<Rightarrow> bool" where
  "float_overflows i = (\<bar>i\<bar> \<ge> 2 ^ 1024 - 2 ^ 970)"

text \<open>\<^verbatim>\<open>float(v)\<close> on a decoded JSON value.\<close>

fun py_float :: "py_env \<Rightarrow> pyval \<Rightarrow> py_error + real" where
  "py_float env (PFloat x) = Inr x"
| "py_float env (PInt i) =
     (if float_overflows i then Inl OverflowError else Inr (real_of_int i))"
| "py_float env (PBool b) = Inr (if b then 1 else 0)"
| "py_float env (PStr s) =
     (case float_of_str env s of None \<Rightarrow> Inl ValueError | Some x \<Rightarrow> Inr x)"
| "py_float env PNone = Inl TypeError"
| "py_float env (PList xs) = Inl TypeError"
| "py_float env (PDict kvs) = Inl TypeError"

text \<open>\<^verbatim>\<open>v[k]\<close> with a string key: only a dict can be subscripted by a string.\<close>

fun py_getitem :: "pyval \<Rightarrow> string \<Rightarrow> py_error + pyval" where
  "py_getitem (PDict kvs) k =
     (case map_of kvs k of None \<Rightarrow> Inl KeyError | Some v \<Rightarrow> Inr v)"
| "py_getitem v k = Inl TypeError"

text \<open>\<^verbatim>\<open>v.upper()\<close>: only a string has the method.\<close>

fun py_upper :: "py_env \<Rightarrow> pyval \<Rightarrow> py_error + string" where
  "py_upper env (PStr s) = Inr (str_upper env s)"
| "py_upper env v = Inl AttributeError"

text \<open>
  \<^verbatim>\<open>for a in data\<close>: a list gives its elements, a dict its keys, a string its
  characters; nothing else can be iterated.
\<close>

fun py_iter :: "pyval \<Rightarrow> py_error + pyval list" where
  "py_iter (PList xs) = Inr xs"
| "py_iter (PDict kvs) = Inr (map (\<lambda>kv. PStr (fst kv)) kvs)"
| "py_iter (PStr s) = Inr (map (\<lambda>c. PStr [c]) s)"
| "py_iter v = Inl TypeError"

subsection \<open>Holdings Loader\<close>

record holding =
  symbol :: string
  amount :: real
  buy_price_usd :: real

definition PORTFOLIO_FILE :: string where
  "PORTFOLIO_FILE = ''portfolio.json''"

text \<open>
  The body of the loop of \<^verbatim>\<open>load_portfolio\<close>, in the order of the source: read and
  upper-case the symbol, read and convert the amount, read and convert the buy price.
  The three assignments store under three different keys, so no read sees an earlier
  write. The holding keeps the three fields that \<^verbatim>\<open>main\<close> reads.
\<close>

definition normalize_record :: "py_env \<Rightarrow> pyval \<Rightarrow> py_error + holding" where
  "normalize_record env a =
     (case py_getitem a ''symbol'' of
        Inl e \<Rightarrow> Inl e
      | Inr s \<Rightarrow>
     (case py_upper env s of
        Inl e \<Rightarrow> Inl e
      | Inr sy \<Rightarrow>
     (case py_getitem a ''amount'' of
        Inl e \<Rightarrow> Inl e
      | Inr x \<Rightarrow>
     (case py_float env x of
        Inl e \<Rightarrow> Inl e
      | Inr amt \<Rightarrow>
     (case py_getitem a ''buy_price_usd'' of
        Inl e \<Rightarrow> Inl e
      | Inr y \<Rightarrow>
     (case py_float env y of
        Inl e \<Rightarrow> Inl e
      | Inr buy \<Rightarrow> Inr \<lparr>symbol = sy, amount = amt, buy_price_usd = buy\<rparr>))))))"

text \<open>The loop: the first element that raises ends it, and nothing is returned then.\<close>

fun normalize_all :: "py_env \<Rightarrow> pyval list \<Rightarrow> py_error + holding list" where
  "normalize_all env [] = Inr []"
| "normalize_all env (a # rest) =
     (case normalize_record env a of
        Inl e \<Rightarrow> Inl e
      | Inr h \<Rightarrow>
          (case normalize_all env rest of
             Inl e \<Rightarrow> Inl e
           | Inr hs \<Rightarrow> Inr (h # hs)))"

text \<open>
  \<^verbatim>\<open>load_portfolio\<close> returns the decoded value itself, its elements updated in place.
  The model returns the elements as holdings, in the order of the iteration; an empty
  dict and an empty string, which iterate over nothing as the empty list does, give the
  empty list of holdings.
\<close>

definition load_portfolio :: "py_env \<Rightarrow> string \<Rightarrow> py_error + holding list" where
  "load_portfolio env path =
     (case read_file env path of
        Inl e \<Rightarrow> Inl e
      | Inr content \<Rightarrow>
          (case json_parse env content of
             Inl e \<Rightarrow> Inl e
           | Inr data \<Rightarrow>
               (case py_iter data of
                  Inl e \<Rightarrow> Inl e
                | Inr items \<Rightarrow> normalize_all env items)))"

subsection \<open>Price Fetcher\<close>

text \<open>The static table from tickers to the identifiers of the price service.\<close>

definition CG_IDS :: "(string \<times> string) list" where
  "CG_IDS =
     [(''BTC'', ''bitcoin''), (''ETH'', ''ethereum''), (''SOL'', ''solana''),
      (''USDT'', ''tether''), (''BNB'', ''binancecoin''), (''XRP'', ''ripple''),
      (''DOGE'', ''dogecoin''), (''TON'', ''the-open-network''), (''ADA'', ''cardano''),
      (''ARB'', ''arbitrum''), (''OP'', ''optimism'')]"

text \<open>\<^verbatim>\<open>sep.join(xs)\<close>\<close>

fun join :: "string \<Rightarrow> string list \<Rightarrow> string" where
  "join sep [] = []"
| "join sep [x] = x"
| "join sep (x # y # ys) = x @ sep @ join sep (y # ys)"

text \<open>\<^verbatim>\<open>[CG_IDS[s] for s in symbols if s in CG_IDS]\<close>\<close>

definition translate_ids :: "string list \<Rightarrow> string list" where
  "translate_ids symbols = List.map_filter (map_of CG_IDS) symbols"

definition price_url :: "string list \<Rightarrow> string" where
  "price_url ids =
     ''https://api.coingecko.com/api/v3/simple/price'' @
     ''?ids='' @ join '','' ids @ ''&vs_currencies=usd''"

text \<open>
  \<^verbatim>\<open>{v: k for k, v in CG_IDS.items()}\<close>: a later entry of the table would overwrite
  an earlier one with the same identifier, hence the reversal before \<open>map_of\<close>.
\<close>

definition id_to_symbol :: "string \<rightharpoonup> string" where
  "id_to_symbol = map_of (rev (map (\<lambda>kv. (snd kv, fst kv)) CG_IDS))"

text \<open>\<^verbatim>\<open>data.items()\<close>: only a dict has the method.\<close>

fun py_items :: "pyval \<Rightarrow> py_error + (string \<times> pyval) list" where
  "py_items (PDict kvs) = Inr kvs"
| "py_items v = Inl AttributeError"

text \<open>
  \<^verbatim>\<open>k in v\<close> for a string \<open>k\<close>: a key of a dict, a substring of a string, an
  element of a list; any other value is not a container.
\<close>

fun py_contains :: "string \<Rightarrow> pyval \<Rightarrow> py_error + bool" where
  "py_contains k (PDict kvs) = Inr (k \<in> set (map fst kvs))"
| "py_contains k (PStr s) = Inr (sublist k s)"
| "py_contains k (PList xs) = Inr (PStr k \<in> set xs)"
| "py_contains k v = Inl TypeError"

text \<open>
  The loop over the items of the response. \<^verbatim>\<open>if sym and "usd" in payload\<close> tests
  the symbol first (\<open>None\<close> and the empty string are false) and the payload only then.
\<close>

fun collect_prices ::
  "py_env \<Rightarrow> (string \<times> pyval) list \<Rightarrow> (string \<rightharpoonup> real) \<Rightarrow> py_error + (string \<rightharpoonup> real)"
where
  "collect_prices env [] prices = Inr prices"
| "collect_prices env ((cg_id, payload) # rest) prices =
     (case id_to_symbol cg_id of
        None \<Rightarrow> collect_prices env rest prices
      | Some sy \<Rightarrow>
          if sy = [] then collect_prices env rest prices
          else
            (case py_contains ''usd'' payload of
               Inl e \<Rightarrow> Inl e
             | Inr present \<Rightarrow>
                 if \<not> present then collect_prices env rest prices
                 else
                   (case py_getitem payload ''usd'' of
                      Inl e \<Rightarrow> Inl e
                    | Inr v \<Rightarrow>
                        (case py_float env v of
                           Inl e \<Rightarrow> Inl e
                         | Inr x \<Rightarrow> collect_prices env rest (prices(sy \<mapsto> x))))))"

text \<open>
  The exceptions named by the \<^verbatim>\<open>except\<close> clause. In \<open>py_error\<close> the constructor
  \<open>URLError\<close> stands for the class with its subclasses, \<open>OSError\<close> and \<open>ValueError\<close>
  for the members of these classes that the clause does not name.
\<close>

definition caught :: "py_error \<Rightarrow> bool" where
  "caught e = (e = URLError \<or> e = TimeoutError \<or> e = JSONDecodeError)"

definition fetch_prices :: "py_env \<Rightarrow> string list \<Rightarrow> py_error + (string \<rightharpoonup> real)" where
  "fetch_prices env symbols =
     (let ids = translate_ids symbols in
      if ids = [] then Inr Map.empty
      else
        (case urlopen_read env (price_url ids) of
           Inl e \<Rightarrow> if caught e then Inr Map.empty else Inl e
         | Inr raw \<Rightarrow>
             (case json_parse env raw of
                Inl e \<Rightarrow> if caught e then Inr Map.empty else Inl e
              | Inr data \<Rightarrow>
                  (case py_items data of
                     Inl e \<Rightarrow> Inl e
                   | Inr items \<Rightarrow> collect_prices env items Map.empty))))"

subsection \<open>Metrics Calculator\<close>

text \<open>\<^verbatim>\<open>a / b\<close> on floats raises when the divisor is zero.\<close>

definition py_div :: "real \<Rightarrow> real \<Rightarrow> py_error + real" where
  "py_div a b = (if b = 0 then Inl ZeroDivisionError else Inr (a / b))"

text \<open>The values that one pass of the loop of \<^verbatim>\<open>main\<close> computes, under the names of
  its local variables.\<close>

record metrics =
  m_sym :: string
  m_amt :: real
  m_buy :: real
  m_live_price :: real
  m_cost :: real
  m_value :: real
  m_pnl :: real
  m_pnl_pct :: real

text \<open>\<^verbatim>\<open>(p / c * 100.0) if c else 0.0\<close>: a float is false exactly when it is zero.\<close>

definition pct_of :: "real \<Rightarrow> real \<Rightarrow> py_error + real" where
  "pct_of p c =
     (if c \<noteq> 0 then (case py_div p c of Inl e \<Rightarrow> Inl e | Inr q \<Rightarrow> Inr (q * 100))
      else Inr 0)"

definition row_metrics :: "(string \<rightharpoonup> real) \<Rightarrow> holding \<Rightarrow> py_error + metrics" where
  "row_metrics live a =
     (let sy = symbol a;
          amt = amount a;
          buy = buy_price_usd a;
          live_price = (case live sy of None \<Rightarrow> buy | Some p \<Rightarrow> p);
          cost = amt * buy;
          val = amt * live_price;
          pnl = val - cost
      in case pct_of pnl cost of
           Inl e \<Rightarrow> Inl e
         | Inr pnl_pct \<Rightarrow>
             Inr \<lparr>m_sym = sy, m_amt = amt, m_buy = buy, m_live_price = live_price,
                  m_cost = cost, m_value = val, m_pnl = pnl, m_pnl_pct = pnl_pct\<rparr>)"

definition fmt_money :: "py_env \<Rightarrow> real \<Rightarrow> string" where
  "fmt_money env x = ''$'' @ format_comma_2f env x"

definition fmt_pct :: "py_env \<Rightarrow> real \<Rightarrow> string" where
  "fmt_pct env x = (if x \<ge> 0 then ''+'' else []) @ format_2f env x @ ''%''"

definition format_row :: "py_env \<Rightarrow> metrics \<Rightarrow> string list" where
  "format_row env m =
     [m_sym m, format_g env (m_amt m), fmt_money env (m_buy m),
      fmt_money env (m_live_price m), fmt_money env (m_cost m),
      fmt_money env (m_value m), fmt_money env (m_pnl m), fmt_pct env (m_pnl_pct m)]"

text \<open>The loop of \<^verbatim>\<open>main\<close> with its three accumulators: the rows, the total cost and
  the total value.\<close>

fun main_loop ::
  "py_env \<Rightarrow> (string \<rightharpoonup> real) \<Rightarrow> holding list \<Rightarrow> string list list \<times> real \<times> real
     \<Rightarrow> py_error + (string list list \<times> real \<times> real)"
where
  "main_loop env live [] acc = Inr acc"
| "main_loop env live (a # pf) (rows, total_cost, total_value) =
     (case row_metrics live a of
        Inl e \<Rightarrow> Inl e
      | Inr m \<Rightarrow>
          main_loop env live pf
            (rows @ [format_row env m], total_cost + m_cost m, total_value + m_value m))"

text \<open>The total PnL and its percentage, computed after the table is printed.\<close>

definition totals :: "real \<Rightarrow> real \<Rightarrow> py_error + (real \<times> real)" where
  "totals total_cost total_value =
     (let total_pnl = total_value - total_cost
      in case pct_of total_pnl total_cost of
           Inl e \<Rightarrow> Inl e
         | Inr total_pct \<Rightarrow> Inr (total_pnl, total_pct))"

subsection \<open>Table Renderer\<close>

text \<open>
  \<^verbatim>\<open>max(a, *rest)\<close>: with no further argument the single argument has to be an
  iterable, and an integer is none.
\<close>

fun py_max :: "nat \<Rightarrow> nat list \<Rightarrow> py_error + nat" where
  "py_max a [] = Inl TypeError"
| "py_max a (b # bs) = Inr (fold max (b # bs) a)"

text \<open>\<^verbatim>\<open>(len(r[i]) for r in rows)\<close>, unpacked before \<^verbatim>\<open>max\<close> is called: a row with
  no cell \<open>i\<close> raises.\<close>

fun column_lens :: "string list list \<Rightarrow> nat \<Rightarrow> py_error + nat list" where
  "column_lens [] i = Inr []"
| "column_lens (r # rs) i =
     (if i < length r
      then (case column_lens rs i of Inl e \<Rightarrow> Inl e | Inr ls \<Rightarrow> Inr (length (r ! i) # ls))
      else Inl IndexError)"

text \<open>The list comprehension over \<^verbatim>\<open>enumerate(headers)\<close>, from index \<open>i\<close> on.\<close>

fun col_w_from :: "string list list \<Rightarrow> nat \<Rightarrow> string list \<Rightarrow> py_error + nat list" where
  "col_w_from rows i [] = Inr []"
| "col_w_from rows i (h # hs) =
     (case column_lens rows i of
        Inl e \<Rightarrow> Inl e
      | Inr ls \<Rightarrow>
          (case py_max (length h) ls of
             Inl e \<Rightarrow> Inl e
           | Inr w \<Rightarrow>
               (case col_w_from rows (Suc i) hs of
                  Inl e \<Rightarrow> Inl e
                | Inr ws \<Rightarrow> Inr (w # ws))))"

definition col_w :: "string list list \<Rightarrow> string list \<Rightarrow> py_error + nat list" where
  "col_w rows hdrs = col_w_from rows 0 hdrs"

definition line :: "nat list \<Rightarrow> string \<Rightarrow> string" where
  "line ws c = ''+'' @ join ''+'' (map (\<lambda>w. concat (replicate (w + 2) c)) ws) @ ''+''"

definition ljust :: "string \<Rightarrow> nat \<Rightarrow> string" where
  "ljust s w = s @ replicate (w - length s) CHR '' ''"

definition row :: "nat list \<Rightarrow> string list \<Rightarrow> string" where
  "row ws items =
     ''| '' @ join '' | '' (map (\<lambda>p. ljust (fst p) (snd p)) (zip items ws)) @ '' |''"

text \<open>The printed lines of \<^verbatim>\<open>print_table\<close>; the widths are computed before anything is
  printed.\<close>

definition print_table :: "string list list \<Rightarrow> string list \<Rightarrow> py_error + string list" where
  "print_table rows hdrs =
     (case col_w rows hdrs of
        Inl e \<Rightarrow> Inl e
      | Inr ws \<Rightarrow>
          Inr ([line ws ''='', row ws hdrs, line ws ''=''] @ map (row ws) rows @
               [line ws ''='']))"

subsection \<open>Orchestrator\<close>

definition headers :: "string list" where
  "headers =
     [''Asset'', ''Amount'', ''Buy/USD'', ''Price/USD'', ''Cost'', ''Value'', ''PnL'', ''PnL%'']"

text \<open>The title, one string per \<^verbatim>\<open>print\<close>; its pictograph is kept as the bytes of the
  source file.\<close>

definition title :: string where
  "title =
     [CHR 0x0A, CHR 0xC3, CHR 0xB0, CHR 0xC5, CHR 0xB8, CHR 0xE2, CHR 0x80, CHR 0x9C,
      CHR 0xC5, CHR 0xA0] @ '' Crypto Portfolio Dashboard'' @ [CHR 0x0A]"

text \<open>
  \<^verbatim>\<open>main\<close>: what was printed (one string per \<^verbatim>\<open>print\<close>) and the exception that
  ended the run, if one did.
\<close>

definition main :: "py_env \<Rightarrow> string list \<times> py_error option" where
  "main env =
     (case load_portfolio env PORTFOLIO_FILE of
        Inl e \<Rightarrow> ([], Some e)
      | Inr pf \<Rightarrow>
          (case fetch_prices env (sort (remdups (map symbol pf))) of
             Inl e \<Rightarrow> ([], Some e)
           | Inr live \<Rightarrow>
               (case main_loop env live pf ([], 0, 0) of
                  Inl e \<Rightarrow> ([], Some e)
                | Inr (rows, total_cost, total_value) \<Rightarrow>
                    (case print_table rows headers of
                       Inl e \<Rightarrow> ([title], Some e)
                     | Inr tbl \<Rightarrow>
                         (case totals total_cost total_value of
                            Inl e \<Rightarrow> (title # tbl, Some e)
                          | Inr (total_pnl, total_pct) \<Rightarrow>
                              (title # tbl @
                                 [''Total Cost : '' @ fmt_money env total_cost,
                                  ''Total Value: '' @ fmt_money env total_value,
                                  ''Total PnL  : '' @ fmt_money env total_pnl @ ''  ('' @
                                    fmt_pct env total_pct @ '')'' @ [CHR 0x0A]],
                               None))))))"

subsection \<open>What the loader needs from one record\<close>

text \<open>
  Read off \<open>normalize_record\<close>: the element is a dict, its \<^verbatim>\<open>symbol\<close> is a string, and
  \<^verbatim>\<open>float\<close> accepts its \<^verbatim>\<open>amount\<close> and its \<^verbatim>\<open>buy_price_usd\<close>. The lemma
  \<open>normalize_record_ok_iff\<close> below shows that this is exactly when the loop body does
  not raise.
\<close>

definition record_ok :: "py_env \<Rightarrow> pyval \<Rightarrow> bool" where
  "record_ok env a =
     (case a of
        PDict kvs \<Rightarrow>
          (case (map_of kvs ''symbol'', map_of kvs ''amount'', map_of kvs ''buy_price_usd'') of
             (Some (PStr s), Some x, Some y) \<Rightarrow>
               \<not> isl (py_float env x) \<and> \<not> isl (py_float env y)
           | _ \<Rightarrow> False)
      | _ \<Rightarrow> False)"

subsection \<open>Concrete environments and inputs\<close>

text \<open>
  An environment for running the model: \<open>file\<close> is what reading the portfolio file
  gives and \<open>body\<close> what the price service answers. \<open>Inl e\<close> is the exception \<open>e\<close>,
  \<open>Inr None\<close> a text that is not JSON, \<open>Inr (Some v)\<close> a text that decodes to \<open>v\<close>.
  The two texts are named \<open>P\<close> and \<open>R\<close>. Upper-casing and float parsing are given on
  the strings that the examples use.
\<close>

definition example_decode :: "py_error + pyval option \<Rightarrow> py_error + pyval" where
  "example_decode t =
     (case t of
        Inl e \<Rightarrow> Inl JSONDecodeError
      | Inr None \<Rightarrow> Inl JSONDecodeError
      | Inr (Some v) \<Rightarrow> Inr v)"

definition example_env :: "py_error + pyval option \<Rightarrow> py_error + pyval option \<Rightarrow> py_env" where
  "example_env file body =
     \<lparr>read_file = (\<lambda>p. if p = PORTFOLIO_FILE then map_sum id (\<lambda>d. ''P'') file
                        else Inl FileNotFoundError),
      json_parse = (\<lambda>t. if t = ''P'' then example_decode file
                         else if t = ''R'' then example_decode body
                         else Inl JSONDecodeError),
      str_upper = (\<lambda>s. if s = ''btc'' then ''BTC'' else s),
      float_of_str = (\<lambda>s. if s = ''1.5'' then Some 1.5 else None),
      urlopen_read = (\<lambda>u. map_sum id (\<lambda>d. ''R'') body),
      format_g = (\<lambda>x. ''g''),
      format_comma_2f = (\<lambda>x. ''0.00''),
      format_2f = (\<lambda>x. ''0.00'')\<rparr>"

text \<open>The portfolio and the prices of the example scenario: half a BTC bought at 20000,
  two ETH bought at 1500, and a live price for BTC only.\<close>

definition example_portfolio :: pyval where
  "example_portfolio =
     PList [PDict [(''symbol'', PStr ''btc''), (''amount'', PFloat (1 / 2)),
                   (''buy_price_usd'', PInt 20000)],
            PDict [(''symbol'', PStr ''ETH''), (''amount'', PInt 2),
                   (''buy_price_usd'', PInt 1500)]]"

definition example_holdings :: "holding list" where
  "example_holdings =
     [\<lparr>symbol = ''BTC'', amount = 1 / 2, buy_price_usd = 20000\<rparr>,
      \<lparr>symbol = ''ETH'', amount = 2, buy_price_usd = 1500\<rparr>]"

definition example_live :: "string \<rightharpoonup> real" where
  "example_live = [''BTC'' \<mapsto> 30000]"

definition btc_response :: pyval where
  "btc_response = PDict [(''bitcoin'', PDict [(''usd'', PInt 30000)])]"

text \<open>A response that also answers for an identifier nobody asked for.\<close>

definition btc_eth_response :: pyval where
  "btc_eth_response =
     PDict [(''bitcoin'', PDict [(''usd'', PInt 30000)]),
            (''ethereum'', PDict [(''usd'', PInt 2000)])]"

text \<open>A response without a price: \<^verbatim>\<open>{"bitcoin": {"usd": null}}\<close>.\<close>

definition null_price_response :: pyval where
  "null_price_response = PDict [(''bitcoin'', PDict [(''usd'', PNone)])]"

text \<open>Portfolio files: a record whose symbol is the number 5, a record whose symbol is
  the empty string, and a record without an amount after a complete one.\<close>

definition numeric_symbol_file :: pyval where
  "numeric_symbol_file =
     PList [PDict [(''symbol'', PInt 5), (''amount'', PInt 1), (''buy_price_usd'', PInt 2)]]"

definition empty_symbol_file :: pyval where
  "empty_symbol_file =
     PList [PDict [(''symbol'', PStr []), (''amount'', PInt 1), (''buy_price_usd'', PInt 2)]]"

definition missing_amount_file :: pyval where
  "missing_amount_file =
     PList [PDict [(''symbol'', PStr ''BTC''), (''amount'', PInt 1), (''buy_price_usd'', PInt 2)],
            PDict [(''symbol'', PStr ''ETH''), (''buy_price_usd'', PInt 3)]]"

text \<open>A record whose amount is the boolean \<^verbatim>\<open>true\<close> and whose buy price is the string
  \<^verbatim>\<open>"1.5"\<close>.\<close>

definition boolean_amount_file :: pyval where
  "boolean_amount_file =
     PList [PDict [(''symbol'', PStr ''BTC''), (''amount'', PBool True),
                   (''buy_price_usd'', PStr ''1.5'')]]"

text \<open>A record whose amount is the integer \<open>10 ^ 400\<close>, beyond the range of a double.\<close>

definition huge_amount_file :: pyval where
  "huge_amount_file =
     PList [PDict [(''symbol'', PStr ''BTC''), (''amount'', PInt (10 ^ 400)),
                   (''buy_price_usd'', PInt 2)]]"

text \<open>A table of two rows and two columns.\<close>

definition example_rows :: "string list list" where
  "example_rows = [[''abc'', ''d''], [''a'', ''defgh'']]"

definition example_headers :: "string list" where
  "example_headers = [''xx'', ''y'']"

section \<open>Properties\<close>

subsection \<open>The example environment, field by field\<close>

lemma example_env_fields:
  "read_file (example_env file body) p =
     (if p = PORTFOLIO_FILE then map_sum id (\<lambda>d. ''P'') file else Inl FileNotFoundError)"
  "json_parse (example_env file body) t =
     (if t = ''P'' then example_decode file
      else if t = ''R'' then example_decode body
      else Inl JSONDecodeError)"
  "str_upper (example_env file body) s = (if s = ''btc'' then ''BTC'' else s)"
  "float_of_str (example_env file body) s = (if s = ''1.5'' then Some 1.5 else None)"
  "urlopen_read (example_env file body) u = map_sum id (\<lambda>d. ''R'') body"
  by (simp_all add: example_env_def)

text \<open>The integers of the examples are far inside the range of a double; \<open>10 ^ 400\<close>
  is not.\<close>

lemma small_int_converts: "\<bar>i\<bar> \<le> 1000000 \<Longrightarrow> \<not> float_overflows i"
  by (simp add: float_overflows_def)

lemma huge_int_overflows: "float_overflows (10 ^ 400)"
  by (simp add: float_overflows_def)

lemma example_decode_simps:
  "example_decode (Inl e) = Inl JSONDecodeError"
  "example_decode (Inr None) = Inl JSONDecodeError"
  "example_decode (Inr (Some v)) = Inr v"
  by (simp_all add: example_decode_def)

subsection \<open>Metrics Calculator\<close>

text \<open>The guarded percentage and one pass of the loop never raise; their values in
  closed form.\<close>

lemma pct_of_total: "pct_of p c = Inr (if c = 0 then 0 else p / c * 100)"
  by (simp add: pct_of_def py_div_def)

lemma row_metrics_total:
  "row_metrics live a =
     Inr \<lparr>m_sym = symbol a, m_amt = amount a, m_buy = buy_price_usd a,
          m_live_price = (case live (symbol a) of None \<Rightarrow> buy_price_usd a | Some p \<Rightarrow> p),
          m_cost = amount a * buy_price_usd a,
          m_value =
            amount a * (case live (symbol a) of None \<Rightarrow> buy_price_usd a | Some p \<Rightarrow> p),
          m_pnl =
            amount a * (case live (symbol a) of None \<Rightarrow> buy_price_usd a | Some p \<Rightarrow> p)
              - amount a * buy_price_usd a,
          m_pnl_pct =
            (if amount a * buy_price_usd a = 0 then 0
             else (amount a * (case live (symbol a) of None \<Rightarrow> buy_price_usd a | Some p \<Rightarrow> p)
                    - amount a * buy_price_usd a) / (amount a * buy_price_usd a) * 100)\<rparr>"
  by (simp add: row_metrics_def pct_of_total Let_def)

lemma totals_total:
  "totals total_cost total_value =
     Inr (total_value - total_cost,
          if total_cost = 0 then 0 else (total_value - total_cost) / total_cost * 100)"
  by (simp add: totals_def pct_of_total Let_def)

text \<open>The loop, from any state of its accumulators: it appends one formatted row per
  holding and adds the costs and the values.\<close>

lemma main_loop_acc:
  "\<exists>ms. map (row_metrics live) pf = map Inr ms \<and>
     main_loop env live pf (rows, tc, tv) =
       Inr (rows @ map (format_row env) ms, tc + sum_list (map m_cost ms),
            tv + sum_list (map m_value ms))"
proof (induction pf arbitrary: rows tc tv)
  case Nil
  then show ?case by simp
next
  case (Cons a pf)
  obtain m where m: "row_metrics live a = Inr m"
    using row_metrics_total by blast
  from Cons.IH [of "rows @ [format_row env m]" "tc + m_cost m" "tv + m_value m"]
  obtain ms where ms: "map (row_metrics live) pf = map Inr ms"
    and loop: "main_loop env live pf (rows @ [format_row env m], tc + m_cost m, tv + m_value m) =
       Inr ((rows @ [format_row env m]) @ map (format_row env) ms,
            (tc + m_cost m) + sum_list (map m_cost ms),
            (tv + m_value m) + sum_list (map m_value ms))"
    by blast
  have "map (row_metrics live) (a # pf) = map Inr (m # ms)"
    using m ms by simp
  moreover have "main_loop env live (a # pf) (rows, tc, tv) =
       Inr (rows @ map (format_row env) (m # ms), tc + sum_list (map m_cost (m # ms)),
            tv + sum_list (map m_value (m # ms)))"
    using m loop by (simp add: add.assoc)
  ultimately show ?case by blast
qed

lemma metrics_fallback:
  "map (row_metrics Map.empty) pf = map Inr ms \<Longrightarrow> map m_live_price ms = map buy_price_usd pf"
proof (induction pf arbitrary: ms)
  case Nil
  then show ?case by simp
next
  case (Cons a pf)
  then show ?case by (cases ms) (auto simp add: row_metrics_total)
qed

lemma metrics_pnl:
  "map (row_metrics live) pf = map Inr ms \<Longrightarrow>
     map m_pnl ms = map (\<lambda>m. m_value m - m_cost m) ms"
proof (induction pf arbitrary: ms)
  case Nil
  then show ?case by simp
next
  case (Cons a pf)
  then show ?case by (cases ms) (auto simp add: row_metrics_total)
qed

lemma example_metrics:
  "map (row_metrics example_live) example_holdings =
     map Inr
       [\<lparr>m_sym = ''BTC'', m_amt = 1 / 2, m_buy = 20000, m_live_price = 30000,
          m_cost = 10000, m_value = 15000, m_pnl = 5000, m_pnl_pct = 50\<rparr>,
        \<lparr>m_sym = ''ETH'', m_amt = 2, m_buy = 1500, m_live_price = 1500,
          m_cost = 3000, m_value = 3000, m_pnl = 0, m_pnl_pct = 0\<rparr>]"
  by (simp add: example_holdings_def example_live_def row_metrics_total)

text \<open>
  C1. For every holding the loop computes a row, and the current price it uses is the
  live price when the symbol of the holding is a key of the price mapping, and the buy
  price of the holding otherwise. With the empty price mapping the loop still returns
  one row per holding, each at its buy price.
\<close>

theorem resolved_price_live_or_fallback:
  "(\<exists>m. row_metrics live a = Inr m \<and>
      (symbol a \<in> dom live \<longrightarrow> live (symbol a) = Some (m_live_price m)) \<and>
      (symbol a \<notin> dom live \<longrightarrow> m_live_price m = buy_price_usd a)) \<and>
   (\<exists>ms. map (row_metrics Map.empty) pf = map Inr ms \<and>
      map m_live_price ms = map buy_price_usd pf \<and>
      (\<exists>tc tv. main_loop env Map.empty pf ([], 0, 0) = Inr (map (format_row env) ms, tc, tv)))"
proof (intro conjI)
  show "\<exists>m. row_metrics live a = Inr m \<and>
      (symbol a \<in> dom live \<longrightarrow> live (symbol a) = Some (m_live_price m)) \<and>
      (symbol a \<notin> dom live \<longrightarrow> m_live_price m = buy_price_usd a)"
    by (auto simp add: row_metrics_total split: option.splits)
next
  obtain ms where ms: "map (row_metrics Map.empty) pf = map Inr ms"
    and loop: "main_loop env Map.empty pf ([], 0, 0) =
       Inr ([] @ map (format_row env) ms, 0 + sum_list (map m_cost ms),
            0 + sum_list (map m_value ms))"
    using main_loop_acc [of Map.empty pf env "[]" 0 0] by blast
  from ms have "map m_live_price ms = map buy_price_usd pf"
    by (rule metrics_fallback)
  with ms loop
  show "\<exists>ms. map (row_metrics Map.empty) pf = map Inr ms \<and>
      map m_live_price ms = map buy_price_usd pf \<and>
      (\<exists>tc tv. main_loop env Map.empty pf ([], 0, 0) = Inr (map (format_row env) ms, tc, tv))"
    by auto
qed

text \<open>On the example scenario: BTC has a live price, ETH falls back to its buy price.\<close>

theorem resolved_price_witness:
  "(\<exists>m. row_metrics example_live \<lparr>symbol = ''BTC'', amount = 1 / 2, buy_price_usd = 20000\<rparr>
           = Inr m \<and> m_live_price m = 30000) \<and>
   (\<exists>m. row_metrics example_live \<lparr>symbol = ''ETH'', amount = 2, buy_price_usd = 1500\<rparr>
           = Inr m \<and> m_live_price m = 1500)"
proof (intro conjI)
  have "''BTC'' \<in> dom example_live"
    by (simp add: example_live_def)
  with resolved_price_live_or_fallback
    [of example_live "\<lparr>symbol = ''BTC'', amount = 1 / 2, buy_price_usd = 20000\<rparr>"]
  show "\<exists>m. row_metrics example_live \<lparr>symbol = ''BTC'', amount = 1 / 2, buy_price_usd = 20000\<rparr>
           = Inr m \<and> m_live_price m = 30000"
    by (auto simp add: example_live_def)
next
  have "''ETH'' \<notin> dom example_live"
    by (simp add: example_live_def)
  with resolved_price_live_or_fallback
    [of example_live "\<lparr>symbol = ''ETH'', amount = 2, buy_price_usd = 1500\<rparr>"]
  show "\<exists>m. row_metrics example_live \<lparr>symbol = ''ETH'', amount = 2, buy_price_usd = 1500\<rparr>
           = Inr m \<and> m_live_price m = 1500"
    by auto
qed

text \<open>
  C2. When the cost of a holding is exactly 0 its PnL percent is 0, whatever the live
  price and hence the value; when the total cost is exactly 0 the total PnL percent is 0;
  and neither the row nor the totals ever raise \<^verbatim>\<open>ZeroDivisionError\<close>: the division
  is not reached with a zero divisor.
\<close>

theorem zero_cost_guard:
  "(amount a * buy_price_usd a = 0 \<longrightarrow>
      (\<exists>m. row_metrics live a = Inr m \<and> m_cost m = 0 \<and> m_pnl_pct m = 0)) \<and>
   totals 0 total_value = Inr (total_value, 0) \<and>
   row_metrics live a \<noteq> Inl ZeroDivisionError \<and>
   totals total_cost total_value \<noteq> Inl ZeroDivisionError \<and>
   pct_of p 0 = Inr 0 \<and> pct_of p c \<noteq> Inl ZeroDivisionError"
  by (simp add: row_metrics_total totals_total pct_of_total)

text \<open>A holding of amount 0 with a live price: cost 0, percent 0, no error.\<close>

theorem zero_cost_guard_witness:
  "\<exists>m. row_metrics example_live \<lparr>symbol = ''BTC'', amount = 0, buy_price_usd = 20000\<rparr> = Inr m
     \<and> m_cost m = 0 \<and> m_pnl_pct m = 0"
  using zero_cost_guard
    [of "\<lparr>symbol = ''BTC'', amount = 0, buy_price_usd = 20000\<rparr>" example_live]
  by simp

text \<open>
  C7. For every holding the row is computed, its cost is the amount times the buy price
  and its value is the amount times the resolved current price, which is the live price
  of the symbol or else the buy price.
\<close>

theorem cost_and_value:
  "\<exists>m. row_metrics live a = Inr m \<and>
     m_cost m = amount a * buy_price_usd a \<and>
     m_value m = amount a * m_live_price m \<and>
     m_live_price m = (case live (symbol a) of None \<Rightarrow> buy_price_usd a | Some p \<Rightarrow> p)"
  by (simp add: row_metrics_total)

text \<open>
  C8. For every list of holdings and every price mapping the loop returns; the total
  cost and the total value are the sums of the costs and of the values of the rows, the
  total PnL is the total value minus the total cost (and the sum of the PnL of the rows),
  and the total PnL percent is the total PnL divided by the total cost times 100, or 0
  when the total cost is 0.
\<close>

theorem totals_are_sums:
  "(\<exists>ms. map (row_metrics live) pf = map Inr ms \<and>
      main_loop env live pf ([], 0, 0) =
        Inr (map (format_row env) ms, sum_list (map m_cost ms), sum_list (map m_value ms)) \<and>
      totals (sum_list (map m_cost ms)) (sum_list (map m_value ms)) =
        Inr (sum_list (map m_pnl ms),
             if sum_list (map m_cost ms) = 0 then 0
             else sum_list (map m_pnl ms) / sum_list (map m_cost ms) * 100)) \<and>
   totals total_cost total_value =
     Inr (total_value - total_cost,
          if total_cost = 0 then 0 else (total_value - total_cost) / total_cost * 100)"
proof (intro conjI)
  obtain ms where ms: "map (row_metrics live) pf = map Inr ms"
    and loop: "main_loop env live pf ([], 0, 0) =
       Inr ([] @ map (format_row env) ms, 0 + sum_list (map m_cost ms),
            0 + sum_list (map m_value ms))"
    using main_loop_acc [of live pf env "[]" 0 0] by blast
  have "sum_list (map m_pnl ms) = sum_list (map (\<lambda>m. m_value m - m_cost m) ms)"
    by (simp only: metrics_pnl [OF ms])
  also have "\<dots> = sum_list (map m_value ms) - sum_list (map m_cost ms)"
    by (rule sum_list_subtractf)
  finally have "totals (sum_list (map m_cost ms)) (sum_list (map m_value ms)) =
        Inr (sum_list (map m_pnl ms),
             if sum_list (map m_cost ms) = 0 then 0
             else sum_list (map m_pnl ms) / sum_list (map m_cost ms) * 100)"
    by (simp add: totals_total)
  with ms loop
  show "\<exists>ms. map (row_metrics live) pf = map Inr ms \<and>
      main_loop env live pf ([], 0, 0) =
        Inr (map (format_row env) ms, sum_list (map m_cost ms), sum_list (map m_value ms)) \<and>
      totals (sum_list (map m_cost ms)) (sum_list (map m_value ms)) =
        Inr (sum_list (map m_pnl ms),
             if sum_list (map m_cost ms) = 0 then 0
             else sum_list (map m_pnl ms) / sum_list (map m_cost ms) * 100)"
    by auto
next
  show "totals total_cost total_value =
     Inr (total_value - total_cost,
          if total_cost = 0 then 0 else (total_value - total_cost) / total_cost * 100)"
    by (rule totals_total)
qed

text \<open>On the example scenario: cost 13000, value 18000, PnL 5000, which is 500/13
  percent (38.46 to two places).\<close>

theorem totals_are_sums_witness:
  "(\<exists>rows. main_loop (example_env (Inr None) (Inr None)) example_live example_holdings
             ([], 0, 0) = Inr (rows, 13000, 18000)) \<and>
   totals 13000 18000 = Inr (5000, 500 / 13)"
proof -
  let ?env = "example_env (Inr None) (Inr None)"
  from totals_are_sums [of example_live example_holdings ?env 13000 18000]
  obtain ms where ms: "map (row_metrics example_live) example_holdings = map Inr ms"
    and loop: "main_loop ?env example_live example_holdings ([], 0, 0) =
        Inr (map (format_row ?env) ms, sum_list (map m_cost ms), sum_list (map m_value ms))"
    and tot: "totals 13000 18000 =
        Inr (18000 - 13000, if (13000::real) = 0 then 0 else (18000 - 13000) / 13000 * 100)"
    by blast
  from ms have "map Inr ms =
      map (Inr :: metrics \<Rightarrow> py_error + metrics)
       [\<lparr>m_sym = ''BTC'', m_amt = 1 / 2, m_buy = 20000, m_live_price = 30000,
          m_cost = 10000, m_value = 15000, m_pnl = 5000, m_pnl_pct = 50\<rparr>,
        \<lparr>m_sym = ''ETH'', m_amt = 2, m_buy = 1500, m_live_price = 1500,
          m_cost = 3000, m_value = 3000, m_pnl = 0, m_pnl_pct = 0\<rparr>]"
    by (simp only: example_metrics)
  then have "ms =
       [\<lparr>m_sym = ''BTC'', m_amt = 1 / 2, m_buy = 20000, m_live_price = 30000,
          m_cost = 10000, m_value = 15000, m_pnl = 5000, m_pnl_pct = 50\<rparr>,
        \<lparr>m_sym = ''ETH'', m_amt = 2, m_buy = 1500, m_live_price = 1500,
          m_cost = 3000, m_value = 3000, m_pnl = 0, m_pnl_pct = 0\<rparr>]"
    by (rule map_injective) simp
  with loop have "main_loop ?env example_live example_holdings ([], 0, 0) =
      Inr (map (format_row ?env) ms, 13000, 18000)"
    by simp
  moreover from tot have "totals 13000 18000 = Inr (5000, 500 / 13)"
    by simp
  ultimately show ?thesis by blast
qed

subsection \<open>Price Fetcher\<close>

text \<open>The table has no ticker twice and no identifier twice, so the reversed table is
  its inverse.\<close>

lemma CG_IDS_distinct_fst: "distinct (map fst CG_IDS)"
  by (simp add: CG_IDS_def)

lemma CG_IDS_distinct_snd: "distinct (map snd CG_IDS)"
  by (simp add: CG_IDS_def)

lemma id_to_symbol_table:
  assumes "id_to_symbol cg = Some sy"
  shows "map_of CG_IDS sy = Some cg"
proof -
  from assms have "(cg, sy) \<in> set (rev (map (\<lambda>kv. (snd kv, fst kv)) CG_IDS))"
    unfolding id_to_symbol_def by (rule map_of_SomeD)
  then have "(sy, cg) \<in> set CG_IDS"
    by auto
  with CG_IDS_distinct_fst show ?thesis
    by (simp add: map_of_is_SomeI)
qed

lemma distinct_snd_unique:
  "distinct (map snd xs) \<Longrightarrow> (a, c) \<in> set xs \<Longrightarrow> (b, c) \<in> set xs \<Longrightarrow> a = b"
  by (induction xs) force+

lemma CG_IDS_injective:
  assumes "map_of CG_IDS s = Some cg" and "map_of CG_IDS s' = Some cg"
  shows "s = s'"
  using distinct_snd_unique
    [OF CG_IDS_distinct_snd map_of_SomeD [OF assms(1)] map_of_SomeD [OF assms(2)]] .

lemma translate_ids_requested:
  "cg \<in> set (translate_ids symbols) \<Longrightarrow> \<exists>s\<in>set symbols. map_of CG_IDS s = Some cg"
  by (auto simp add: translate_ids_def List.map_filter_def)

text \<open>The loop adds keys only for identifiers of the response that the reversed table
  knows.\<close>

lemma collect_prices_dom:
  "collect_prices env items prices = Inr prices' \<Longrightarrow>
     dom prices' \<subseteq> dom prices \<union> {sy. \<exists>cg\<in>set (map fst items). id_to_symbol cg = Some sy}"
proof (induction items arbitrary: prices)
  case Nil
  then show ?case by simp
next
  case (Cons item items)
  obtain cg payload where item: "item = (cg, payload)"
    by (cases item)
  show ?case
  proof (cases "id_to_symbol cg")
    case None
    with Cons item show ?thesis by fastforce
  next
    case (Some sy)
    from Cons.prems item Some
    consider "collect_prices env items prices = Inr prices'"
      | x where "collect_prices env items (prices(sy \<mapsto> x)) = Inr prices'"
      by (auto split: if_splits sum.splits)
    then show ?thesis
    proof cases
      case 1
      from Cons.IH [OF 1] item show ?thesis by auto
    next
      case 2
      from Cons.IH [OF 2] item Some show ?thesis
        by (fastforce simp add: dom_def split: if_splits)
    qed
  qed
qed

text \<open>The failures that the \<^verbatim>\<open>except\<close> clause names do give the empty mapping.\<close>

lemma fetch_prices_recovers:
  assumes "translate_ids symbols \<noteq> []"
  shows "urlopen_read env (price_url (translate_ids symbols)) = Inl e \<Longrightarrow> caught e \<Longrightarrow>
           fetch_prices env symbols = Inr Map.empty"
    and "urlopen_read env (price_url (translate_ids symbols)) = Inr raw \<Longrightarrow>
           json_parse env raw = Inl e \<Longrightarrow> caught e \<Longrightarrow>
           fetch_prices env symbols = Inr Map.empty"
  using assms by (simp_all add: fetch_prices_def)

text \<open>Every other exception of the request or of the decoder reaches the caller.\<close>

lemma fetch_prices_uncaught:
  assumes "translate_ids symbols \<noteq> []" and "\<not> caught e"
  shows "urlopen_read env (price_url (translate_ids symbols)) = Inl e \<Longrightarrow>
           fetch_prices env symbols = Inl e"
    and "urlopen_read env (price_url (translate_ids symbols)) = Inr raw \<Longrightarrow>
           json_parse env raw = Inl e \<Longrightarrow> fetch_prices env symbols = Inl e"
  using assms by (simp_all add: fetch_prices_def)

text \<open>
  C3, as stated (the returned mapping has only requested symbols as keys, whatever the
  service answers), does not hold: asked for BTC alone, and answered with prices for
  \<^verbatim>\<open>bitcoin\<close> and \<^verbatim>\<open>ethereum\<close>, the fetcher returns a price for ETH.
\<close>

theorem unrequested_symbol_returned:
  "translate_ids [''BTC''] = [''bitcoin''] \<and>
   (case fetch_prices (example_env (Inr None) (Inr (Some btc_eth_response))) [''BTC''] of
      Inl e \<Rightarrow> None
    | Inr prices \<Rightarrow> prices ''ETH'') = Some 2000 \<and>
   ''ETH'' \<notin> set [''BTC'']"
  by (simp add: fetch_prices_def example_env_fields example_decode_simps small_int_converts btc_eth_response_def translate_ids_def
      List.map_filter_def CG_IDS_def id_to_symbol_def)

text \<open>
  C3, amended. Every key of the returned mapping is a ticker of the static table; and
  when every identifier of the response is one of the identifiers that were requested,
  every key is one of the requested symbols.
\<close>

theorem fetched_symbols_bounded:
  assumes "fetch_prices env symbols = Inr prices"
  shows "dom prices \<subseteq> set (map fst CG_IDS) \<and>
     ((\<forall>raw items. urlopen_read env (price_url (translate_ids symbols)) = Inr raw \<longrightarrow>
          json_parse env raw = Inr (PDict items) \<longrightarrow>
          set (map fst items) \<subseteq> set (translate_ids symbols)) \<longrightarrow>
      dom prices \<subseteq> set symbols)"
proof (cases "\<exists>raw items. translate_ids symbols \<noteq> [] \<and>
     urlopen_read env (price_url (translate_ids symbols)) = Inr raw \<and>
     json_parse env raw = Inr (PDict items)")
  case False
  with assms have "prices = Map.empty"
    by (auto simp add: fetch_prices_def Let_def split: if_splits sum.splits option.splits
        elim: py_items.elims)
  then show ?thesis by simp
next
  case True
  then obtain raw items where ids: "translate_ids symbols \<noteq> []"
    and raw: "urlopen_read env (price_url (translate_ids symbols)) = Inr raw"
    and items: "json_parse env raw = Inr (PDict items)"
    by blast
  with assms have "collect_prices env items Map.empty = Inr prices"
    by (simp add: fetch_prices_def)
  from collect_prices_dom [OF this]
  have keys: "dom prices \<subseteq> {sy. \<exists>cg\<in>set (map fst items). id_to_symbol cg = Some sy}"
    by simp
  have "dom prices \<subseteq> set (map fst CG_IDS)"
  proof
    fix sy assume "sy \<in> dom prices"
    with keys obtain cg where "id_to_symbol cg = Some sy" by blast
    then have "map_of CG_IDS sy = Some cg" by (rule id_to_symbol_table)
    then have "(sy, cg) \<in> set CG_IDS" by (rule map_of_SomeD)
    then show "sy \<in> set (map fst CG_IDS)" by force
  qed
  moreover have "dom prices \<subseteq> set symbols"
    if asked: "set (map fst items) \<subseteq> set (translate_ids symbols)"
  proof
    fix sy assume "sy \<in> dom prices"
    with keys obtain cg where cg: "cg \<in> set (map fst items)" and sy: "id_to_symbol cg = Some sy"
      by blast
    from cg asked have "cg \<in> set (translate_ids symbols)" by blast
    then obtain s where s: "s \<in> set symbols" and "map_of CG_IDS s = Some cg"
      using translate_ids_requested by blast
    with id_to_symbol_table [OF sy] have "s = sy"
      using CG_IDS_injective by blast
    with s show "sy \<in> set symbols" by simp
  qed
  ultimately show ?thesis using raw items by blast
qed

text \<open>Asked for BTC, ETH and an unknown ticker, and answered for \<^verbatim>\<open>bitcoin\<close> only.\<close>

theorem fetched_symbols_witness:
  "fetch_prices (example_env (Inr None) (Inr (Some btc_response))) [''BTC'', ''ETH'', ''XYZ'']
     = Inr [''BTC'' \<mapsto> 30000] \<and>
   dom [''BTC'' \<mapsto> (30000::real)] \<subseteq> set (map fst CG_IDS) \<and>
   dom [''BTC'' \<mapsto> (30000::real)] \<subseteq> set [''BTC'', ''ETH'', ''XYZ'']"
proof -
  let ?env = "example_env (Inr None) (Inr (Some btc_response))"
  let ?symbols = "[''BTC'', ''ETH'', ''XYZ'']"
  have run: "fetch_prices ?env ?symbols = Inr [''BTC'' \<mapsto> 30000]"
    by (simp add: fetch_prices_def example_env_fields example_decode_simps small_int_converts btc_response_def translate_ids_def
        List.map_filter_def CG_IDS_def id_to_symbol_def)
  have asked: "\<forall>raw items. urlopen_read ?env (price_url (translate_ids ?symbols)) = Inr raw \<longrightarrow>
          json_parse ?env raw = Inr (PDict items) \<longrightarrow>
          set (map fst items) \<subseteq> set (translate_ids ?symbols)"
    by (auto simp add: example_env_fields example_decode_simps small_int_converts btc_response_def translate_ids_def
        List.map_filter_def CG_IDS_def)
  from fetched_symbols_bounded [OF run] asked
  have "dom [''BTC'' \<mapsto> (30000::real)] \<subseteq> set (map fst CG_IDS) \<and>
      dom [''BTC'' \<mapsto> (30000::real)] \<subseteq> set ?symbols"
    by blast
  with run show ?thesis by blast
qed

text \<open>
  C4 says that every failure of the fetch, a response body that cannot be parsed into
  the expected shape included, gives the empty mapping and no exception. The
  \<^verbatim>\<open>except\<close> clause covers \<^verbatim>\<open>URLError\<close>, \<^verbatim>\<open>TimeoutError\<close> and
  \<^verbatim>\<open>JSONDecodeError\<close>, and the loop over the response runs after the \<^verbatim>\<open>try\<close>
  block. Asked for BTC: a failed request and a body that is not JSON give the empty
  mapping; but the body \<^verbatim>\<open>[]\<close> raises \<^verbatim>\<open>AttributeError\<close>, the body
  \<^verbatim>\<open>{"bitcoin": {"usd": null}}\<close> raises \<^verbatim>\<open>TypeError\<close>, and a body that is not
  UTF-8 raises \<^verbatim>\<open>UnicodeDecodeError\<close>, and each of the three reaches the caller.
\<close>

theorem fetch_prices_propagates:
  "fetch_prices (example_env (Inr None) (Inl URLError)) [''BTC''] = Inr Map.empty \<and>
   fetch_prices (example_env (Inr None) (Inr None)) [''BTC''] = Inr Map.empty \<and>
   fetch_prices (example_env (Inr None) (Inr (Some (PList [])))) [''BTC'']
     = Inl AttributeError \<and>
   fetch_prices (example_env (Inr None) (Inr (Some null_price_response))) [''BTC'']
     = Inl TypeError \<and>
   fetch_prices (example_env (Inr None) (Inl UnicodeDecodeError)) [''BTC'']
     = Inl UnicodeDecodeError"
  by (simp add: fetch_prices_def example_env_fields example_decode_simps small_int_converts null_price_response_def translate_ids_def
      List.map_filter_def CG_IDS_def id_to_symbol_def caught_def)

subsection \<open>Holdings Loader\<close>

text \<open>When the loop body returns, and what it returns.\<close>

lemma normalize_record_Inr_iff:
  "normalize_record env a = Inr h \<longleftrightarrow>
     (\<exists>kvs s x y. a = PDict kvs \<and> map_of kvs ''symbol'' = Some (PStr s) \<and>
        map_of kvs ''amount'' = Some x \<and> map_of kvs ''buy_price_usd'' = Some y \<and>
        symbol h = str_upper env s \<and> py_float env x = Inr (amount h) \<and>
        py_float env y = Inr (buy_price_usd h))"
proof (cases a)
  case (PDict kvs)
  show ?thesis
  proof (cases "map_of kvs ''symbol''")
    case None
    with PDict show ?thesis by (simp add: normalize_record_def)
  next
    case (Some v)
    show ?thesis
    proof (cases v)
      case (PStr s)
      with PDict Some show ?thesis
        by (cases h) (auto simp add: normalize_record_def split: sum.splits option.splits)
    qed (use PDict Some in \<open>simp_all add: normalize_record_def\<close>)
  qed
qed (simp_all add: normalize_record_def)

lemma normalize_record_ok_iff: "(\<exists>h. normalize_record env a = Inr h) \<longleftrightarrow> record_ok env a"
proof
  assume "\<exists>h. normalize_record env a = Inr h"
  then obtain h where "normalize_record env a = Inr h" ..
  then show "record_ok env a"
    unfolding normalize_record_Inr_iff by (auto simp add: record_ok_def)
next
  assume ok: "record_ok env a"
  then obtain kvs where a: "a = PDict kvs"
    by (cases a) (simp_all add: record_ok_def)
  from ok a obtain s x y where keys: "map_of kvs ''symbol'' = Some (PStr s)"
      "map_of kvs ''amount'' = Some x" "map_of kvs ''buy_price_usd'' = Some y"
    and fl: "\<not> isl (py_float env x)" "\<not> isl (py_float env y)"
    by (auto simp add: record_ok_def split: option.splits pyval.splits)
  from fl obtain ax bx where "py_float env x = Inr ax" "py_float env y = Inr bx"
    by (cases "py_float env x"; cases "py_float env y") simp_all
  with a keys
  have "normalize_record env a =
      Inr \<lparr>symbol = str_upper env s, amount = ax, buy_price_usd = bx\<rparr>"
    unfolding normalize_record_Inr_iff by simp
  then show "\<exists>h. normalize_record env a = Inr h" ..
qed

lemma normalize_all_Inr_iff:
  "normalize_all env xs = Inr hs \<longleftrightarrow>
     list_all2 (\<lambda>a h. normalize_record env a = Inr h) xs hs"
proof (induction xs arbitrary: hs)
  case Nil
  then show ?case by auto
next
  case (Cons a xs)
  show ?case
  proof (cases hs)
    case Nil
    then show ?thesis by (simp split: sum.splits)
  next
    case (Cons h hs')
    with Cons.IH [of hs'] show ?thesis
      by (auto split: sum.splits)
  qed
qed

lemma normalize_all_isl_iff:
  "isl (normalize_all env xs) \<longleftrightarrow> (\<exists>a\<in>set xs. \<not> record_ok env a)"
proof (induction xs)
  case Nil
  then show ?case by simp
next
  case (Cons a xs)
  show ?case
  proof (cases "normalize_record env a")
    case (Inl e)
    then have "\<not> record_ok env a"
      using normalize_record_ok_iff [of env a] by simp
    with Inl show ?thesis by simp
  next
    case (Inr h)
    then have "record_ok env a"
      using normalize_record_ok_iff [of env a] by blast
    with Inr Cons.IH show ?thesis
      by (cases "normalize_all env xs") auto
  qed
qed

text \<open>An integer amount beyond the range of a double: the record is rejected and the
  load raises \<^verbatim>\<open>OverflowError\<close>.\<close>

lemma huge_amount_raises:
  "\<not> record_ok env (PDict [(''symbol'', PStr ''BTC''), (''amount'', PInt (10 ^ 400)),
                           (''buy_price_usd'', PInt 2)])"
  "load_portfolio (example_env (Inr (Some huge_amount_file)) (Inr None)) PORTFOLIO_FILE
     = Inl OverflowError"
  by (simp_all add: record_ok_def load_portfolio_def normalize_record_def huge_amount_file_def
      example_env_fields example_decode_simps float_overflows_def)

text \<open>
  C5, as stated (the loader raises exactly when the file is missing, is not valid
  structured data, or a record lacks a field or has a non-numeric amount or price), does
  not hold, in either direction. The first file below is there, decodes, and its one
  record has the three fields with a numeric amount and price, and the loader raises
  \<^verbatim>\<open>AttributeError\<close>, because the symbol 5 has no method \<^verbatim>\<open>upper\<close>. The record of
  the second file has a boolean amount and a string as its price, and the loader returns
  a holding, because \<^verbatim>\<open>float\<close> accepts both.
\<close>

theorem load_raises_on_numeric_symbol:
  "read_file (example_env (Inr (Some numeric_symbol_file)) (Inr None)) PORTFOLIO_FILE
     = Inr ''P'' \<and>
   json_parse (example_env (Inr (Some numeric_symbol_file)) (Inr None)) ''P''
     = Inr (PList [PDict [(''symbol'', PInt 5), (''amount'', PInt 1),
                           (''buy_price_usd'', PInt 2)]]) \<and>
   py_float (example_env (Inr (Some numeric_symbol_file)) (Inr None)) (PInt 1) = Inr 1 \<and>
   py_float (example_env (Inr (Some numeric_symbol_file)) (Inr None)) (PInt 2) = Inr 2 \<and>
   load_portfolio (example_env (Inr (Some numeric_symbol_file)) (Inr None)) PORTFOLIO_FILE
     = Inl AttributeError \<and>
   load_portfolio (example_env (Inr (Some boolean_amount_file)) (Inr None)) PORTFOLIO_FILE
     = Inr [\<lparr>symbol = ''BTC'', amount = 1, buy_price_usd = 3 / 2\<rparr>]"
  by (simp add: load_portfolio_def example_env_fields example_decode_simps small_int_converts numeric_symbol_file_def
      boolean_amount_file_def normalize_record_def)

text \<open>
  C5, amended. The loader raises exactly when the file cannot be read, the decoder raises
  on its text, the decoded value cannot be iterated (it is not a list, a dict or a
  string), or some element is not a dict with a string under \<^verbatim>\<open>symbol\<close> and, under
  \<^verbatim>\<open>amount\<close> and \<^verbatim>\<open>buy_price_usd\<close>, values that \<^verbatim>\<open>float\<close> accepts; and
  \<^verbatim>\<open>float\<close> rejects exactly \<^verbatim>\<open>null\<close>, a list, a dict, an integer beyond the range of
  a double and a string that does not parse as a float. When the loader raises it returns
  no list of holdings.
\<close>

theorem load_raises_iff:
  "(isl (load_portfolio env path) \<longleftrightarrow>
      isl (read_file env path) \<or>
      (\<exists>content. read_file env path = Inr content \<and>
         (isl (json_parse env content) \<or>
          (\<exists>data. json_parse env content = Inr data \<and>
             (isl (py_iter data) \<or>
              (\<exists>items. py_iter data = Inr items \<and>
                 (\<exists>a\<in>set items. \<not> record_ok env a))))))) \<and>
   (isl (py_float env v) \<longleftrightarrow>
      v = PNone \<or> (\<exists>xs. v = PList xs) \<or> (\<exists>kvs. v = PDict kvs) \<or>
      (\<exists>i. v = PInt i \<and> float_overflows i) \<or>
      (\<exists>s. v = PStr s \<and> float_of_str env s = None)) \<and>
   (isl (load_portfolio env path) \<longrightarrow> (\<forall>hs. load_portfolio env path \<noteq> Inr hs))"
proof (intro conjI)
  show "isl (load_portfolio env path) \<longleftrightarrow>
      isl (read_file env path) \<or>
      (\<exists>content. read_file env path = Inr content \<and>
         (isl (json_parse env content) \<or>
          (\<exists>data. json_parse env content = Inr data \<and>
             (isl (py_iter data) \<or>
              (\<exists>items. py_iter data = Inr items \<and>
                 (\<exists>a\<in>set items. \<not> record_ok env a))))))"
    by (auto simp add: load_portfolio_def normalize_all_isl_iff split: sum.splits)
next
  show "isl (py_float env v) \<longleftrightarrow>
      v = PNone \<or> (\<exists>xs. v = PList xs) \<or> (\<exists>kvs. v = PDict kvs) \<or>
      (\<exists>i. v = PInt i \<and> float_overflows i) \<or>
      (\<exists>s. v = PStr s \<and> float_of_str env s = None)"
    by (cases v) (auto split: option.splits)
next
  show "isl (load_portfolio env path) \<longrightarrow> (\<forall>hs. load_portfolio env path \<noteq> Inr hs)"
    by auto
qed

text \<open>A file whose second record has no amount, and a file whose record has the amount
  \<open>10 ^ 400\<close>: the load raises and returns no list, in the first case not even the first
  holding.\<close>

theorem load_raises_witness:
  "isl (load_portfolio (example_env (Inr (Some missing_amount_file)) (Inr None))
          PORTFOLIO_FILE) \<and>
   (\<forall>hs. load_portfolio (example_env (Inr (Some missing_amount_file)) (Inr None))
            PORTFOLIO_FILE \<noteq> Inr hs) \<and>
   isl (py_float (example_env (Inr (Some huge_amount_file)) (Inr None)) (PInt (10 ^ 400))) \<and>
   isl (load_portfolio (example_env (Inr (Some huge_amount_file)) (Inr None))
          PORTFOLIO_FILE)"
proof -
  let ?env = "example_env (Inr (Some missing_amount_file)) (Inr None)"
  let ?huge = "example_env (Inr (Some huge_amount_file)) (Inr None)"
  note missing = load_raises_iff [of ?env PORTFOLIO_FILE PNone]
  note huge = load_raises_iff [of ?huge PORTFOLIO_FILE "PInt (10 ^ 400)"]
  have "\<exists>content. read_file ?env PORTFOLIO_FILE = Inr content \<and>
         (isl (json_parse ?env content) \<or>
          (\<exists>data. json_parse ?env content = Inr data \<and>
             (isl (py_iter data) \<or>
              (\<exists>items. py_iter data = Inr items \<and>
                 (\<exists>a\<in>set items. \<not> record_ok ?env a)))))"
    by (simp add: example_env_fields example_decode_simps small_int_converts
        missing_amount_file_def record_ok_def)
  with missing have raises: "isl (load_portfolio ?env PORTFOLIO_FILE)"
    by blast
  with missing have none: "\<forall>hs. load_portfolio ?env PORTFOLIO_FILE \<noteq> Inr hs"
    by blast
  from huge huge_int_overflows
  have rejected: "isl (py_float ?huge (PInt (10 ^ 400)))"
    by blast
  have "\<exists>content. read_file ?huge PORTFOLIO_FILE = Inr content \<and>
         (isl (json_parse ?huge content) \<or>
          (\<exists>data. json_parse ?huge content = Inr data \<and>
             (isl (py_iter data) \<or>
              (\<exists>items. py_iter data = Inr items \<and>
                 (\<exists>a\<in>set items. \<not> record_ok ?huge a)))))"
    by (simp add: example_env_fields example_decode_simps float_overflows_def
        huge_amount_file_def record_ok_def)
  with huge have "isl (load_portfolio ?huge PORTFOLIO_FILE)"
    by blast
  with raises none rejected show ?thesis
    by blast
qed

text \<open>
  C6, as stated (every loaded holding has a non-empty symbol, and a record with an empty
  symbol fails the load), does not hold: a record whose symbol is the empty string loads,
  and the holding has the empty symbol.
\<close>

theorem empty_symbol_loads:
  "load_portfolio (example_env (Inr (Some empty_symbol_file)) (Inr None)) PORTFOLIO_FILE
     = Inr [\<lparr>symbol = [], amount = 1, buy_price_usd = 2\<rparr>]"
  by (simp add: load_portfolio_def example_env_fields example_decode_simps small_int_converts empty_symbol_file_def
      normalize_record_def)

text \<open>
  C6, amended. A successful load gives one holding per element of the decoded file, in
  order; each element is a dict with a string under \<^verbatim>\<open>symbol\<close>, and the holding has
  that string upper-cased as its symbol (nothing is said about its length), and as its
  amount and buy price the floats that \<^verbatim>\<open>float\<close> makes of the values under
  \<^verbatim>\<open>amount\<close> and \<^verbatim>\<open>buy_price_usd\<close>. So no holding comes from an element that is
  not such a dict or whose amount or price \<^verbatim>\<open>float\<close> rejects (an integer beyond the
  range of a double included): with such an element the load does not succeed.
\<close>

theorem loaded_holdings_normalized:
  assumes "load_portfolio env path = Inr hs"
  shows "\<exists>content data items.
     read_file env path = Inr content \<and> json_parse env content = Inr data \<and>
     py_iter data = Inr items \<and>
     list_all2 (\<lambda>a h. \<exists>kvs s x y. a = PDict kvs \<and> map_of kvs ''symbol'' = Some (PStr s) \<and>
        map_of kvs ''amount'' = Some x \<and> map_of kvs ''buy_price_usd'' = Some y \<and>
        symbol h = str_upper env s \<and> py_float env x = Inr (amount h) \<and>
        py_float env y = Inr (buy_price_usd h)) items hs \<and>
     (\<forall>a\<in>set items. record_ok env a)"
proof -
  from assms obtain content data items where src: "read_file env path = Inr content"
    "json_parse env content = Inr data" "py_iter data = Inr items"
    and all: "normalize_all env items = Inr hs"
    by (auto simp add: load_portfolio_def split: sum.splits)
  from all have "list_all2 (\<lambda>a h. \<exists>kvs s x y. a = PDict kvs \<and>
        map_of kvs ''symbol'' = Some (PStr s) \<and>
        map_of kvs ''amount'' = Some x \<and> map_of kvs ''buy_price_usd'' = Some y \<and>
        symbol h = str_upper env s \<and> py_float env x = Inr (amount h) \<and>
        py_float env y = Inr (buy_price_usd h)) items hs"
    by (simp add: normalize_all_Inr_iff normalize_record_Inr_iff)
  moreover from all have "\<not> isl (normalize_all env items)"
    by simp
  then have "\<forall>a\<in>set items. record_ok env a"
    by (simp add: normalize_all_isl_iff)
  ultimately show ?thesis
    using src by blast
qed

text \<open>The example portfolio loads into the two holdings of the example scenario.\<close>

theorem loaded_holdings_witness:
  "load_portfolio (example_env (Inr (Some example_portfolio)) (Inr None)) PORTFOLIO_FILE
     = Inr example_holdings \<and>
   (\<exists>content data items.
     read_file (example_env (Inr (Some example_portfolio)) (Inr None)) PORTFOLIO_FILE
       = Inr content \<and>
     json_parse (example_env (Inr (Some example_portfolio)) (Inr None)) content = Inr data \<and>
     py_iter data = Inr items \<and>
     list_all2 (\<lambda>a h. \<exists>kvs s x y. a = PDict kvs \<and> map_of kvs ''symbol'' = Some (PStr s) \<and>
        map_of kvs ''amount'' = Some x \<and> map_of kvs ''buy_price_usd'' = Some y \<and>
        symbol h = str_upper (example_env (Inr (Some example_portfolio)) (Inr None)) s \<and>
        py_float (example_env (Inr (Some example_portfolio)) (Inr None)) x
          = Inr (amount h) \<and>
        py_float (example_env (Inr (Some example_portfolio)) (Inr None)) y
          = Inr (buy_price_usd h)) items example_holdings \<and>
     (\<forall>a\<in>set items. record_ok (example_env (Inr (Some example_portfolio)) (Inr None)) a))"
proof -
  have run: "load_portfolio (example_env (Inr (Some example_portfolio)) (Inr None))
      PORTFOLIO_FILE = Inr example_holdings"
    by (simp add: load_portfolio_def example_env_fields example_decode_simps
        small_int_converts example_portfolio_def example_holdings_def normalize_record_def)
  from run loaded_holdings_normalized [OF run] show ?thesis
    by (rule conjI)
qed

subsection \<open>Table Renderer\<close>

lemma column_lens_ok:
  "\<forall>r\<in>set rows. i < length r \<Longrightarrow> column_lens rows i = Inr (map (\<lambda>r. length (r ! i)) rows)"
  by (induction rows) auto

lemma py_max_ok: "ls \<noteq> [] \<Longrightarrow> py_max a ls = Inr (max a (Max (set ls)))"
proof (cases ls)
  case Nil
  assume "ls \<noteq> []"
  with Nil show ?thesis by simp
next
  case (Cons b bs)
  have "fold max (b # bs) a = Max (set (a # b # bs))"
    by (simp only: Max.set_eq_fold)
  also have "\<dots> = max a (Max (set (b # bs)))"
    by simp
  finally show ?thesis using Cons by simp
qed

lemma col_w_from_ok:
  assumes "rows \<noteq> []"
  shows "\<forall>r\<in>set rows. i + length hs \<le> length r \<Longrightarrow>
     col_w_from rows i hs =
       Inr (map (\<lambda>j. max (length (hs ! j)) (Max ((\<lambda>r. length (r ! (i + j))) ` set rows)))
              [0..<length hs])"
proof (induction hs arbitrary: i)
  case Nil
  then show ?case by simp
next
  case (Cons h hs)
  from Cons.prems have here: "\<forall>r\<in>set rows. i < length r"
    and later: "\<forall>r\<in>set rows. Suc i + length hs \<le> length r"
    by auto
  have lens: "column_lens rows i = Inr (map (\<lambda>r. length (r ! i)) rows)"
    using here by (rule column_lens_ok)
  have mx: "py_max (length h) (map (\<lambda>r. length (r ! i)) rows) =
      Inr (max (length h) (Max ((\<lambda>r. length (r ! i)) ` set rows)))"
    using assms py_max_ok [of "map (\<lambda>r. length (r ! i)) rows" "length h"] by simp
  have "[0..<length (h # hs)] = 0 # map Suc [0..<length hs]"
    by (simp add: upt_conv_Cons map_Suc_upt del: upt_Suc)
  then show ?case
    using lens mx Cons.IH [OF later] by (simp add: comp_def)
qed

lemma col_w_empty_rows: "hdrs \<noteq> [] \<Longrightarrow> col_w [] hdrs = Inl TypeError"
  by (cases hdrs) (simp_all add: col_w_def)

text \<open>
  C9, as stated (for every non-empty list of rows and every header list), does not hold:
  with a row that has fewer cells than there are headers no width is computed, the
  comprehension raises \<^verbatim>\<open>IndexError\<close>.
\<close>

theorem short_row_raises:
  "col_w [[''a'']] [''x'', ''y''] = Inl IndexError \<and>
   print_table [[''a'']] [''x'', ''y''] = Inl IndexError"
  by (simp add: col_w_def print_table_def)

text \<open>
  C9, amended. For every non-empty list of rows and every header list such that every row
  has at least as many cells as there are headers, the widths are computed, one per
  header, and the width of each column is the maximum of the length of its header and of
  the length of the longest cell of the rows in that column; so the header and every cell
  of the column fit.
\<close>

theorem column_widths:
  assumes "rows \<noteq> []" and "\<forall>r\<in>set rows. length hdrs \<le> length r"
  shows "\<exists>ws. col_w rows hdrs = Inr ws \<and> length ws = length hdrs \<and>
     (\<forall>i<length hdrs.
        ws ! i = max (length (hdrs ! i)) (Max ((\<lambda>r. length (r ! i)) ` set rows)) \<and>
        length (hdrs ! i) \<le> ws ! i \<and> (\<forall>r\<in>set rows. length (r ! i) \<le> ws ! i))"
proof -
  let ?ws = "map (\<lambda>j. max (length (hdrs ! j)) (Max ((\<lambda>r. length (r ! j)) ` set rows)))
              [0..<length hdrs]"
  have "col_w rows hdrs = Inr ?ws"
    using col_w_from_ok [OF assms(1), of 0 hdrs] assms(2) by (simp add: col_w_def)
  moreover have "length ?ws = length hdrs"
    by simp
  moreover have "\<forall>i<length hdrs.
        ?ws ! i = max (length (hdrs ! i)) (Max ((\<lambda>r. length (r ! i)) ` set rows)) \<and>
        length (hdrs ! i) \<le> ?ws ! i \<and> (\<forall>r\<in>set rows. length (r ! i) \<le> ?ws ! i)"
    by (auto simp add: max.coboundedI2)
  ultimately show ?thesis by blast
qed

text \<open>The two-column example: the first column is as wide as its longest cell, three
  characters, the second as wide as its longest cell, five.\<close>

theorem column_widths_witness:
  "\<exists>ws. col_w example_rows example_headers = Inr ws \<and> length ws = 2 \<and>
     ws ! 0 = 3 \<and> ws ! 1 = 5"
proof -
  have rows: "example_rows \<noteq> []"
    by (simp add: example_rows_def)
  have cells: "\<forall>r\<in>set example_rows. length example_headers \<le> length r"
    by (simp add: example_rows_def example_headers_def)
  from column_widths [OF rows cells]
  obtain ws where ws: "col_w example_rows example_headers = Inr ws"
    and len: "length ws = length example_headers"
    and each: "\<forall>i<length example_headers.
        ws ! i = max (length (example_headers ! i))
                   (Max ((\<lambda>r. length (r ! i)) ` set example_rows)) \<and>
        length (example_headers ! i) \<le> ws ! i \<and>
        (\<forall>r\<in>set example_rows. length (r ! i) \<le> ws ! i)"
    by blast
  from each have "ws ! 0 = 3"
    by (simp add: example_rows_def example_headers_def)
  moreover from each have "ws ! 1 = 5"
    by (simp add: example_rows_def example_headers_def)
  moreover from len have "length ws = 2"
    by (simp add: example_headers_def)
  ultimately show ?thesis using ws by blast
qed

text \<open>
  C10. With no rows the computation of the widths raises \<^verbatim>\<open>TypeError\<close> for every
  non-empty header list, and so for the headers of the report: nothing of the table is
  printed. A run whose portfolio file holds no record prints the title and ends with that
  exception, before the table and the totals.
\<close>

theorem empty_rows_raise:
  "(hdrs \<noteq> [] \<longrightarrow> col_w [] hdrs = Inl TypeError \<and> print_table [] hdrs = Inl TypeError) \<and>
   print_table [] headers = Inl TypeError \<and>
   (load_portfolio env PORTFOLIO_FILE = Inr [] \<longrightarrow> main env = ([title], Some TypeError))"
proof (intro conjI impI)
  assume "hdrs \<noteq> []"
  then show "col_w [] hdrs = Inl TypeError"
    by (rule col_w_empty_rows)
  then show "print_table [] hdrs = Inl TypeError"
    by (simp add: print_table_def)
next
  show tbl: "print_table [] headers = Inl TypeError"
    by (simp add: print_table_def col_w_empty_rows headers_def)
  assume "load_portfolio env PORTFOLIO_FILE = Inr []"
  with tbl show "main env = ([title], Some TypeError)"
    by (simp add: main_def fetch_prices_def translate_ids_def List.map_filter_def)
qed

text \<open>A portfolio file that holds the empty array.\<close>

theorem empty_rows_witness:
  "load_portfolio (example_env (Inr (Some (PList []))) (Inr None)) PORTFOLIO_FILE = Inr [] \<and>
   main (example_env (Inr (Some (PList []))) (Inr None)) = ([title], Some TypeError)"
proof -
  have run: "load_portfolio (example_env (Inr (Some (PList []))) (Inr None)) PORTFOLIO_FILE
      = Inr []"
    by (simp add: load_portfolio_def example_env_fields example_decode_simps small_int_converts)
  with empty_rows_raise [of "[]" "example_env (Inr (Some (PList []))) (Inr None)"]
  show ?thesis by blast
qed

end
